theory Spec2Isabelle
  imports Main
begin

section \<open>JavaScript values of the CatFacts script\<close>

text \<open>
  The script \<^verbatim>\<open>index.js\<close> reads three JSON documents and prints some of their
  fields. A parsed document is a JavaScript value: one of the six kinds of JSON value,
  or \<^verbatim>\<open>undefined\<close>, which a property read yields for a property that is not there.
  An object is kept as the list of its own properties in insertion order; the parser
  leaves each name at most once, and a read takes the first entry of that name. The
  script never computes with a number of a document, it can only turn one into text
  inside a template literal; so a number is kept as the text that the language gives for
  it (\<^verbatim>\<open>10\<close>, \<^verbatim>\<open>-0.5\<close>, \<^verbatim>\<open>1e+21\<close>), which determines the number.
\<close>

datatype jsval =
    Undefined
  | JNull
  | JBool bool
  | JNum string
  | JStr string
  | JArr "jsval list"
  | JObj "(string \<times> jsval) list"

text \<open>An error object, with its \<^verbatim>\<open>name\<close> and its \<^verbatim>\<open>message\<close>.\<close>

datatype js_error = JsError (name: string) (message: string)

definition TypeError :: "string \<Rightarrow> js_error" where
  "TypeError msg = JsError ''TypeError'' msg"

text \<open>The three properties the script reads: \<^verbatim>\<open>.fact\<close>, \<^verbatim>\<open>.data\<close>, \<^verbatim>\<open>.breed\<close>.\<close>

datatype property = Fact | Data | Breed

fun prop_name :: "property \<Rightarrow> string" where
  "prop_name Fact = ''fact''"
| "prop_name Data = ''data''"
| "prop_name Breed = ''breed''"

text \<open>A name between single quotation marks, as error messages show it.\<close>

definition quoted :: "string \<Rightarrow> string" where
  "quoted s = CHR 0x27 # s @ [CHR 0x27]"

subsection \<open>Decimal text of a number, and the text of a value in a template literal\<close>

text \<open>
  The numbers of the script's own are \<^verbatim>\<open>numberOfFacts\<close> and \<^verbatim>\<open>index + 1\<close>, where
  \<^verbatim>\<open>index\<close> is an index of an array; an array has fewer than \<open>2^32\<close> elements, and
  the text of a natural number of that size is its decimal digits. \<open>digit_char d\<close> is
  the decimal digit \<open>d\<close>, for \<open>d\<close> below ten, which is all \<open>show_nat\<close> asks for.
\<close>

definition digit_char :: "nat \<Rightarrow> char" where
  "digit_char d = ''0123456789'' ! d"

function show_nat :: "nat \<Rightarrow> string" where
  "show_nat n = (if n < 10 then [digit_char n] else show_nat (n div 10) @ [digit_char (n mod 10)])"
  by pat_completeness auto
termination
  by (relation "measure (\<lambda>n. n)") auto

declare show_nat.simps [simp del]

text \<open>
  \<^verbatim>\<open>`${v}`\<close> applies the language's ToString to \<^verbatim>\<open>v\<close>, which can throw. For an
  object it asks the object for its \<^verbatim>\<open>toString\<close> and then its \<^verbatim>\<open>valueOf\<close>: an
  object parsed from JSON inherits both, and the text is \<^verbatim>\<open>[object Object]\<close>, unless
  the document gave it an own property \<^verbatim>\<open>toString\<close>; that property is data and
  cannot be called, \<^verbatim>\<open>valueOf\<close> (inherited, or own and not callable) yields no
  primitive value, and the language throws a TypeError. An array is the texts of its
  elements, taken from left to right and joined by commas, where \<^verbatim>\<open>null\<close> and
  \<^verbatim>\<open>undefined\<close> elements give the empty text; the first element that throws ends it.
\<close>

fun ToString :: "jsval \<Rightarrow> js_error + string"
  and join_elements :: "jsval list \<Rightarrow> js_error + string" where
  "ToString Undefined = Inr ''undefined''"
| "ToString JNull = Inr ''null''"
| "ToString (JBool b) = Inr (if b then ''true'' else ''false'')"
| "ToString (JNum text) = Inr text"
| "ToString (JStr s) = Inr s"
| "ToString (JArr vs) = join_elements vs"
| "ToString (JObj kvs) =
     (case map_of kvs ''toString'' of
        None \<Rightarrow> Inr ''[object Object]''
      | Some v \<Rightarrow> Inl (TypeError ''Cannot convert object to primitive value''))"
| "join_elements [] = Inr []"
| "join_elements (v # vs) =
     (case (if v = Undefined \<or> v = JNull then Inr [] else ToString v) of
        Inl e \<Rightarrow> Inl e
      | Inr s \<Rightarrow>
          (if vs = [] then Inr s
           else (case join_elements vs of Inl e \<Rightarrow> Inl e | Inr r \<Rightarrow> Inr (s @ '','' @ r))))"

section \<open>Console and network events, and callbacks as actions\<close>

text \<open>
  What the script does to the outside world: it starts a GET request
  (\<^verbatim>\<open>fetch(url)\<close>), it starts reading a response body as JSON
  (\<^verbatim>\<open>response.json()\<close>), it calls \<^verbatim>\<open>console.log\<close> with a list of arguments,
  and it calls \<^verbatim>\<open>console.error\<close> with a label and an error.
\<close>

datatype event =
    Fetch string
  | ReadBody
  | ConsoleLog "jsval list"
  | ConsoleError string js_error

text \<open>
  The body of a callback is an action: the events it performs, in order, and then either
  the error it throws (\<open>Inl\<close>) or the value it returns (\<open>Inr\<close>).
\<close>

type_synonym 'a action = "event list \<times> (js_error + 'a)"

definition return_value :: "'a \<Rightarrow> 'a action" where
  "return_value v = ([], Inr v)"

definition throw :: "js_error \<Rightarrow> 'a action" where
  "throw e = ([], Inl e)"

definition bind :: "'a action \<Rightarrow> ('a \<Rightarrow> 'b action) \<Rightarrow> 'b action" where
  "bind m f =
     (case m of
        (evs, Inl e) \<Rightarrow> (evs, Inl e)
      | (evs, Inr v) \<Rightarrow> (case f v of (evs', r) \<Rightarrow> (evs @ evs', r)))"

definition console_log :: "jsval list \<Rightarrow> unit action" where
  "console_log args = ([ConsoleLog args], Inr ())"

definition console_error :: "string \<Rightarrow> js_error \<Rightarrow> unit action" where
  "console_error label e = ([ConsoleError label e], Inr ())"

text \<open>A substitution \<^verbatim>\<open>${v}\<close> of a template literal: no event, the text or the error.\<close>

definition template_text :: "jsval \<Rightarrow> string action" where
  "template_text v = ([], ToString v)"

text \<open>
  Reading a property \<^verbatim>\<open>v.p\<close>. On \<^verbatim>\<open>undefined\<close> and \<^verbatim>\<open>null\<close> the language throws a
  TypeError. On an object it is the own property of that name, or \<^verbatim>\<open>undefined\<close>; the
  prototypes of objects, arrays, strings, numbers and booleans have no property named
  \<^verbatim>\<open>fact\<close>, \<^verbatim>\<open>data\<close> or \<^verbatim>\<open>breed\<close>, and an array's own properties are its indices
  and \<^verbatim>\<open>length\<close>, so every other read gives \<^verbatim>\<open>undefined\<close>. The message of a
  TypeError is worded by the runtime; the texts here are those of Node.js, and no general
  statement below depends on them.
\<close>

fun get_prop :: "jsval \<Rightarrow> property \<Rightarrow> jsval action" where
  "get_prop Undefined p =
     throw (TypeError (''Cannot read properties of undefined (reading '' @ quoted (prop_name p) @ '')''))"
| "get_prop JNull p =
     throw (TypeError (''Cannot read properties of null (reading '' @ quoted (prop_name p) @ '')''))"
| "get_prop (JObj kvs) p =
     return_value (case map_of kvs (prop_name p) of None \<Rightarrow> Undefined | Some v \<Rightarrow> v)"
| "get_prop v p = return_value Undefined"

text \<open>
  \<^verbatim>\<open>xs.forEach((x, index) => ...)\<close> on an array: the callback runs on each element
  in index order, and an error thrown by one call ends the loop.
\<close>

fun forEach_from :: "nat \<Rightarrow> jsval list \<Rightarrow> (jsval \<Rightarrow> nat \<Rightarrow> unit action) \<Rightarrow> unit action" where
  "forEach_from i [] f = return_value ()"
| "forEach_from i (x # xs) f = bind (f x i) (\<lambda>_. forEach_from (Suc i) xs f)"

text \<open>
  The call \<^verbatim>\<open>v.forEach(f)\<close> on any value: reading \<^verbatim>\<open>forEach\<close> of \<^verbatim>\<open>undefined\<close>
  or \<^verbatim>\<open>null\<close> throws; only an array has a function there (whatever a parsed object
  holds under that name is data, never a function), so the call throws on the rest.
\<close>

fun forEach :: "jsval \<Rightarrow> (jsval \<Rightarrow> nat \<Rightarrow> unit action) \<Rightarrow> unit action" where
  "forEach (JArr xs) f = forEach_from 0 xs f"
| "forEach Undefined f =
     throw (TypeError ''Cannot read properties of undefined (reading 'forEach')'')"
| "forEach JNull f =
     throw (TypeError ''Cannot read properties of null (reading 'forEach')'')"
| "forEach v f = throw (TypeError ''data.data.forEach is not a function'')"

section \<open>Promises\<close>

text \<open>
  A promise settles once: fulfilled with a value or rejected with an error. The model
  of a promise chain keeps, beside the settlement, the steps that led to it: one list
  of events for the call that started the chain and one for each callback that ran.
  A callback runs to completion, so the events of one step are never separated by
  events of another chain; between two steps anything else may happen.
\<close>

datatype 'a settled = Fulfilled 'a | Rejected js_error

type_synonym 'a promise = "event list list \<times> 'a settled"

definition events :: "'a promise \<Rightarrow> event list" where
  "events p = concat (fst p)"

text \<open>
  \<^verbatim>\<open>p.then(f)\<close>: when \<^verbatim>\<open>p\<close> is fulfilled, \<^verbatim>\<open>f\<close> runs on its value, and the new
  promise is fulfilled with what \<^verbatim>\<open>f\<close> returns or rejected with what it throws (when
  \<^verbatim>\<open>f\<close> returns a promise, as \<^verbatim>\<open>response.json()\<close> does, with that promise's
  settlement). When \<^verbatim>\<open>p\<close> is rejected, \<^verbatim>\<open>f\<close> does not run and the rejection is
  passed on.
\<close>

fun promise_then :: "'a promise \<Rightarrow> ('a \<Rightarrow> 'b action) \<Rightarrow> 'b promise" where
  "promise_then (steps, Fulfilled v) f =
     (case f v of
        (evs, Inl e) \<Rightarrow> (steps @ [evs], Rejected e)
      | (evs, Inr w) \<Rightarrow> (steps @ [evs], Fulfilled w))"
| "promise_then (steps, Rejected e) f = (steps, Rejected e)"

text \<open>
  \<^verbatim>\<open>p.catch(g)\<close>: when \<^verbatim>\<open>p\<close> is rejected, \<^verbatim>\<open>g\<close> runs on the error; when \<^verbatim>\<open>p\<close>
  is fulfilled, \<^verbatim>\<open>g\<close> does not run and the value is passed on.
\<close>

fun promise_catch :: "'a promise \<Rightarrow> (js_error \<Rightarrow> 'a action) \<Rightarrow> 'a promise" where
  "promise_catch (steps, Rejected e) g =
     (case g e of
        (evs, Inl e') \<Rightarrow> (steps @ [evs], Rejected e')
      | (evs, Inr w) \<Rightarrow> (steps @ [evs], Fulfilled w))"
| "promise_catch (steps, Fulfilled v) g = (steps, Fulfilled v)"

section \<open>The network\<close>

text \<open>
  \<^verbatim>\<open>fetch\<close> and \<^verbatim>\<open>response.json()\<close> belong to the runtime, so what they answer is a
  parameter of the model. A response has its status code and the settlement of
  \<^verbatim>\<open>response.json()\<close>: the parsed document, or the error of the read (a SyntaxError
  when the body is not JSON). The transport says, for each URL, how \<^verbatim>\<open>fetch\<close>
  settles: fulfilled with a response, whatever its status code, or rejected when no
  response was obtained.
\<close>

record response =
  status :: nat
  body_json :: "js_error + jsval"

type_synonym transport = "string \<Rightarrow> response settled"

definition fetch :: "transport \<Rightarrow> string \<Rightarrow> response promise" where
  "fetch t url = ([[Fetch url]], t url)"

definition json :: "response \<Rightarrow> jsval action" where
  "json r = ([ReadBody], body_json r)"

section \<open>The three reports of index.js\<close>

definition baseUrl :: string where
  "baseUrl = ''https://catfact.ninja''"

definition newline :: char where
  "newline = CHR 0x0A"

subsection \<open>getRandomFact\<close>

text \<open>The template literal \<^verbatim>\<open>`${baseUrl}/fact`\<close>.\<close>

definition randomFactUrl :: string where
  "randomFactUrl = baseUrl @ ''/fact''"

text \<open>
  The second callback of the chain:
  \<^verbatim>\<open>data => { console.log("Random Cat Fact:"); console.log(data.fact); }\<close>
\<close>

definition printRandomFact :: "jsval \<Rightarrow> unit action" where
  "printRandomFact data =
     bind (console_log [JStr ''Random Cat Fact:'']) (\<lambda>_.
     bind (get_prop data Fact) (\<lambda>v.
     console_log [v]))"

definition getRandomFact :: "transport \<Rightarrow> unit promise" where
  "getRandomFact t =
     promise_catch
       (promise_then
          (promise_then (fetch t randomFactUrl) json)
          printRandomFact)
       (\<lambda>error. console_error ''Error fetching random cat fact:'' error)"

subsection \<open>getMultipleFacts\<close>

definition numberOfFacts :: nat where
  "numberOfFacts = 3"

text \<open>The template literal \<^verbatim>\<open>`${baseUrl}/facts?limit=${numberOfFacts}`\<close>.\<close>

definition multipleFactsUrl :: string where
  "multipleFactsUrl = baseUrl @ ''/facts?limit='' @ show_nat numberOfFacts"

text \<open>
  The callback of \<^verbatim>\<open>forEach\<close>:
  \<^verbatim>\<open>(fact, index) => { console.log(`${index + 1}. ${fact.fact}`); }\<close>
  The template literal reads \<^verbatim>\<open>fact.fact\<close> and turns it into text before anything is
  logged, so either of the two can throw and then no line is printed.
\<close>

definition printFactLine :: "jsval \<Rightarrow> nat \<Rightarrow> unit action" where
  "printFactLine fact' index =
     bind (get_prop fact' Fact) (\<lambda>v.
     bind (template_text v) (\<lambda>s.
     console_log [JStr (show_nat (index + 1) @ ''. '' @ s)]))"

text \<open>
  The second callback of the chain:
  \<^verbatim>\<open>data => { console.log(`\n${numberOfFacts} Random Cat Facts:`);
            data.data.forEach(...); }\<close>
\<close>

definition printMultipleFacts :: "jsval \<Rightarrow> unit action" where
  "printMultipleFacts data =
     bind (console_log [JStr (newline # show_nat numberOfFacts @ '' Random Cat Facts:'')]) (\<lambda>_.
     bind (get_prop data Data) (\<lambda>d.
     forEach d printFactLine))"

definition getMultipleFacts :: "transport \<Rightarrow> unit promise" where
  "getMultipleFacts t =
     promise_catch
       (promise_then
          (promise_then (fetch t multipleFactsUrl) json)
          printMultipleFacts)
       (\<lambda>error. console_error ''Error fetching multiple cat facts:'' error)"

subsection \<open>getCatBreeds\<close>

text \<open>The template literal \<^verbatim>\<open>`${baseUrl}/breeds`\<close>.\<close>

definition catBreedsUrl :: string where
  "catBreedsUrl = baseUrl @ ''/breeds''"

text \<open>
  The callback of \<^verbatim>\<open>forEach\<close>:
  \<^verbatim>\<open>(breed, index) => { console.log(`${index + 1}. ${breed.breed}`); }\<close>
\<close>

definition printBreedLine :: "jsval \<Rightarrow> nat \<Rightarrow> unit action" where
  "printBreedLine breed index =
     bind (get_prop breed Breed) (\<lambda>v.
     bind (template_text v) (\<lambda>s.
     console_log [JStr (show_nat (index + 1) @ ''. '' @ s)]))"

text \<open>
  The second callback of the chain:
  \<^verbatim>\<open>data => { console.log("\nList of Cat Breeds:"); data.data.forEach(...); }\<close>
\<close>

definition printCatBreeds :: "jsval \<Rightarrow> unit action" where
  "printCatBreeds data =
     bind (console_log [JStr (newline # ''List of Cat Breeds:'')]) (\<lambda>_.
     bind (get_prop data Data) (\<lambda>d.
     forEach d printBreedLine))"

definition getCatBreeds :: "transport \<Rightarrow> unit promise" where
  "getCatBreeds t =
     promise_catch
       (promise_then
          (promise_then (fetch t catBreedsUrl) json)
          printCatBreeds)
       (\<lambda>error. console_error ''Error fetching cat breeds:'' error)"

section \<open>The script as a whole\<close>

text \<open>
  The three reports, in the order in which the script calls them, with the pieces each
  is made of: its function, the URL it requests, the callback that prints its document,
  the header that callback prints first, and the label of its \<^verbatim>\<open>console.error\<close>.
\<close>

datatype report = RandomFact | MultipleFacts | CatBreeds

fun run_report :: "report \<Rightarrow> transport \<Rightarrow> unit promise" where
  "run_report RandomFact = getRandomFact"
| "run_report MultipleFacts = getMultipleFacts"
| "run_report CatBreeds = getCatBreeds"

fun url_of :: "report \<Rightarrow> string" where
  "url_of RandomFact = randomFactUrl"
| "url_of MultipleFacts = multipleFactsUrl"
| "url_of CatBreeds = catBreedsUrl"

fun callback_of :: "report \<Rightarrow> jsval \<Rightarrow> unit action" where
  "callback_of RandomFact = printRandomFact"
| "callback_of MultipleFacts = printMultipleFacts"
| "callback_of CatBreeds = printCatBreeds"

fun header_of :: "report \<Rightarrow> string" where
  "header_of RandomFact = ''Random Cat Fact:''"
| "header_of MultipleFacts = newline # ''3 Random Cat Facts:''"
| "header_of CatBreeds = newline # ''List of Cat Breeds:''"


fun label_of :: "report \<Rightarrow> string" where
  "label_of RandomFact = ''Error fetching random cat fact:''"
| "label_of MultipleFacts = ''Error fetching multiple cat facts:''"
| "label_of CatBreeds = ''Error fetching cat breeds:''"

text \<open>The chain of a report before its \<^verbatim>\<open>.catch\<close>: the report fails when this is rejected.\<close>

definition attempt :: "report \<Rightarrow> transport \<Rightarrow> unit promise" where
  "attempt k t = promise_then (promise_then (fetch t (url_of k)) json) (callback_of k)"

text \<open>
  The script runs top to bottom: it logs the base URL, then calls \<^verbatim>\<open>getRandomFact()\<close>,
  \<^verbatim>\<open>getMultipleFacts()\<close> and \<^verbatim>\<open>getCatBreeds()\<close>. Each call starts its request and
  returns; this is the first step of its chain. The remaining steps of the three chains
  run later, one whole step at a time, when the runtime delivers a settlement to a chain.
  The order of these deliveries is not the script's to choose; it is the schedule, the
  list of the chains in the order in which they are served. A delivery to a chain with no
  step left does nothing. Every event of the trace is tagged with the chain it belongs
  to (\<open>None\<close> for the top level of the script).
\<close>

type_synonym tagged = "report option \<times> event"

fun deliver :: "report list \<Rightarrow> (report \<Rightarrow> event list list) \<Rightarrow> tagged list" where
  "deliver [] q = []"
| "deliver (k # ks) q =
     (case q k of
        [] \<Rightarrow> deliver ks q
      | step # rest \<Rightarrow> map (Pair (Some k)) step @ deliver ks (q(k := rest)))"

definition started :: "report \<Rightarrow> transport \<Rightarrow> tagged list" where
  "started k t = map (Pair (Some k)) (concat (take 1 (fst (run_report k t))))"

definition waiting :: "transport \<Rightarrow> report \<Rightarrow> event list list" where
  "waiting t k = drop 1 (fst (run_report k t))"

definition script :: "transport \<Rightarrow> report list \<Rightarrow> tagged list" where
  "script t schedule =
     (None, ConsoleLog [JStr ''Base URL set up for CatFacts API:'', JStr baseUrl]) #
     started RandomFact t @
     started MultipleFacts t @
     started CatBreeds t @
     deliver schedule (waiting t)"

section \<open>Observations on a trace\<close>


fun is_log :: "event \<Rightarrow> bool" where
  "is_log (ConsoleLog args) = True"
| "is_log ev = False"

fun is_error :: "event \<Rightarrow> bool" where
  "is_error (ConsoleError label e) = True"
| "is_error ev = False"

fun request_of :: "event \<Rightarrow> string list" where
  "request_of (Fetch u) = [u]"
| "request_of ev = []"

definition requests :: "'a promise \<Rightarrow> string list" where
  "requests p = concat (map request_of (events p))"

text \<open>
  The text written to standard output. \<^verbatim>\<open>console.log\<close> with one string argument
  writes the string and a line feed. How the runtime renders any other argument list is
  not modelled (\<open>None\<close>). \<^verbatim>\<open>console.error\<close> writes to the error stream.
\<close>

fun stdout_of :: "event \<Rightarrow> string option" where
  "stdout_of (ConsoleLog [JStr s]) = Some (s @ [newline])"
| "stdout_of (ConsoleLog args) = None"
| "stdout_of ev = Some []"

definition stdout_text :: "event list \<Rightarrow> string option" where
  "stdout_text evs = map_option concat (those (map stdout_of evs))"

text \<open>
  The value of a property read that does not throw, and the line that the callbacks of
  \<^verbatim>\<open>forEach\<close> print for the element at index \<open>n\<close> when its property has the text
  \<open>s\<close>.
\<close>

fun prop_value :: "jsval \<Rightarrow> property \<Rightarrow> jsval" where
  "prop_value (JObj kvs) p = (case map_of kvs (prop_name p) of None \<Rightarrow> Undefined | Some v \<Rightarrow> v)"
| "prop_value v p = Undefined"

definition numbered :: "nat \<Rightarrow> string \<Rightarrow> event" where
  "numbered n s = ConsoleLog [JStr (show_nat (Suc n) @ ''. '' @ s)]"

text \<open>Transport stubs: every request is answered with one response, or fails.\<close>

definition answering :: "response \<Rightarrow> transport" where
  "answering r = (\<lambda>url. Fulfilled r)"

definition refusing :: "js_error \<Rightarrow> transport" where
  "refusing e = (\<lambda>url. Rejected e)"

section \<open>Basic facts\<close>

subsection \<open>Actions\<close>

lemma bind_return [simp]: "bind (return_value v) f = f v"
  by (simp add: bind_def return_value_def)

lemma bind_throw [simp]: "bind (throw e) f = throw e"
  by (simp add: bind_def throw_def)

lemma bind_log [simp]: "bind (console_log args) f = (ConsoleLog args # fst (f ()), snd (f ()))"
  by (simp add: bind_def console_log_def split: prod.splits)

lemma bind_events:
  "fst (bind m f) = fst m @ (case snd m of Inl e \<Rightarrow> [] | Inr v \<Rightarrow> fst (f v))"
  by (simp add: bind_def split: prod.splits sum.splits)

lemma bind_result:
  "snd (bind m f) = (case snd m of Inl e \<Rightarrow> Inl e | Inr v \<Rightarrow> snd (f v))"
  by (simp add: bind_def split: prod.splits sum.splits)

lemma get_prop_silent [simp]: "fst (get_prop v p) = []"
  by (cases v) (simp_all add: throw_def return_value_def)

lemma get_prop_value:
  "v \<noteq> Undefined \<Longrightarrow> v \<noteq> JNull \<Longrightarrow> get_prop v p = return_value (prop_value v p)"
  by (cases v) simp_all

subsection \<open>Texts\<close>

lemma show_nat_small:
  "show_nat (Suc 0) = ''1''"
  "show_nat (Suc (Suc 0)) = ''2''"
  "show_nat (Suc (Suc (Suc 0))) = ''3''"
  by (simp_all add: show_nat.simps digit_char_def)

lemma show_nat_3: "show_nat 3 = ''3''"
  by (simp add: show_nat.simps digit_char_def)

lemma template_text_events [simp]: "fst (template_text v) = []"
  by (simp add: template_text_def)

lemma template_text_result [simp]: "snd (template_text v) = ToString v"
  by (simp add: template_text_def)

lemma url_text:
  "randomFactUrl = ''https://catfact.ninja/fact''"
  "multipleFactsUrl = ''https://catfact.ninja/facts?limit=3''"
  "catBreedsUrl = ''https://catfact.ninja/breeds''"
  by (simp_all add: randomFactUrl_def multipleFactsUrl_def catBreedsUrl_def baseUrl_def
      numberOfFacts_def show_nat_3)

lemma url_of_inject: "url_of k = url_of k' \<longleftrightarrow> k = k'"
  by (cases k; cases k'; simp add: url_text)

lemma header_text:
  "newline # show_nat numberOfFacts @ '' Random Cat Facts:'' = header_of MultipleFacts"
  by (simp add: numberOfFacts_def show_nat_3)

section \<open>The shape of a report\<close>

text \<open>
  Every report is the same chain of a fetch, the body read, the printing callback and the
  error handler. Its steps and its settlement follow from how the request settles, how
  the body read settles and what the callback does.
\<close>

lemma run_report_chain:
  "run_report k t =
     promise_catch
       (promise_then (promise_then (fetch t (url_of k)) json) (callback_of k))
       (console_error (label_of k))"
  by (cases k) (simp_all add: getRandomFact_def getMultipleFacts_def getCatBreeds_def)

lemma pipeline_settles:
  "promise_then (fetch t url) json =
     (case t url of
        Rejected e \<Rightarrow> ([[Fetch url]], Rejected e)
      | Fulfilled r \<Rightarrow>
          ([[Fetch url], [ReadBody]],
           case body_json r of Inl e \<Rightarrow> Rejected e | Inr v \<Rightarrow> Fulfilled v))"
  by (simp add: fetch_def json_def split: settled.splits sum.splits)

lemma report_cases:
  "run_report k t =
     (case t (url_of k) of
        Rejected e \<Rightarrow> ([[Fetch (url_of k)], [ConsoleError (label_of k) e]], Fulfilled ())
      | Fulfilled r \<Rightarrow>
          (case body_json r of
             Inl e \<Rightarrow>
               ([[Fetch (url_of k)], [ReadBody], [ConsoleError (label_of k) e]], Fulfilled ())
           | Inr v \<Rightarrow>
               (case snd (callback_of k v) of
                  Inl e \<Rightarrow>
                    ([[Fetch (url_of k)], [ReadBody], fst (callback_of k v),
                      [ConsoleError (label_of k) e]], Fulfilled ())
                | Inr u \<Rightarrow>
                    ([[Fetch (url_of k)], [ReadBody], fst (callback_of k v)], Fulfilled ()))))"
  by (simp add: run_report_chain pipeline_settles console_error_def
      split: settled.splits sum.splits prod.splits)

lemma collection_report:
  assumes "t (url_of k) = Fulfilled r" and "body_json r = Inr v"
    and "callback_of k v = (evs, Inr ())"
  shows "run_report k t = ([[Fetch (url_of k)], [ReadBody], evs], Fulfilled ())"
  using assms by (simp add: report_cases)

lemma always_fulfilled: "snd (run_report k t) = Fulfilled ()"
  by (simp add: report_cases split: settled.splits sum.splits)

lemma run_report_attempt:
  "run_report k t = promise_catch (attempt k t) (console_error (label_of k))"
  by (simp add: run_report_chain attempt_def)

lemma attempt_cases:
  "attempt k t =
     (case t (url_of k) of
        Rejected e \<Rightarrow> ([[Fetch (url_of k)]], Rejected e)
      | Fulfilled r \<Rightarrow>
          (case body_json r of
             Inl e \<Rightarrow> ([[Fetch (url_of k)], [ReadBody]], Rejected e)
           | Inr v \<Rightarrow>
               ([[Fetch (url_of k)], [ReadBody], fst (callback_of k v)],
                case snd (callback_of k v) of Inl e \<Rightarrow> Rejected e | Inr u \<Rightarrow> Fulfilled u)))"
  by (simp add: attempt_def pipeline_settles split: settled.splits sum.splits prod.splits)

lemma caught:
  "snd (attempt k t) = Rejected e \<Longrightarrow>
   run_report k t = (fst (attempt k t) @ [[ConsoleError (label_of k) e]], Fulfilled ())"
  by (cases "attempt k t") (simp add: run_report_attempt console_error_def)

section \<open>What the callbacks print\<close>

lemma random_fact_prints:
  "printRandomFact (JObj kvs) =
     ([ConsoleLog [JStr (header_of RandomFact)], ConsoleLog [prop_value (JObj kvs) Fact]], Inr ())"
  by (simp add: printRandomFact_def bind_def console_log_def return_value_def)

lemma fact_line:
  "x \<noteq> Undefined \<Longrightarrow> x \<noteq> JNull \<Longrightarrow> ToString (prop_value x Fact) = Inr s \<Longrightarrow>
   printFactLine x n = ([numbered n s], Inr ())"
  by (simp add: printFactLine_def get_prop_value numbered_def console_log_def
      template_text_def bind_def return_value_def)


lemma forEach_from_lines:
  assumes "\<And>x n. x \<in> set xs \<Longrightarrow> f x n = ([numbered n (g x)], Inr ())"
  shows "forEach_from i xs f = (map (\<lambda>(n, x). numbered n (g x)) (enumerate i xs), Inr ())"
  using assms
proof (induction xs arbitrary: i)
  case Nil
  then show ?case by (simp add: return_value_def)
next
  case (Cons x xs)
  then show ?case by (simp add: bind_def)
qed

lemma forEach_lines:
  assumes "\<And>x n. x \<in> set xs \<Longrightarrow> f x n = ([numbered n (g x)], Inr ())"
  shows "forEach (JArr xs) f = (map (\<lambda>(n, x). numbered n (g x)) (enumerate 0 xs), Inr ())"
  using assms by (simp add: forEach_from_lines)

lemma multiple_facts_prints:
  assumes "map_of kvs ''data'' = Some (JArr xs)"
    and "\<And>x. x \<in> set xs \<Longrightarrow>
           x \<noteq> Undefined \<and> x \<noteq> JNull \<and> ToString (prop_value x Fact) = Inr (g x)"
  shows "printMultipleFacts (JObj kvs) =
     (ConsoleLog [JStr (header_of MultipleFacts)] #
      map (\<lambda>(n, x). numbered n (g x)) (enumerate 0 xs), Inr ())"
proof -
  have "forEach (JArr xs) printFactLine =
      (map (\<lambda>(n, x). numbered n (g x)) (enumerate 0 xs), Inr ())"
    by (rule forEach_lines) (simp add: fact_line assms(2))
  then show ?thesis
    using assms(1) by (simp add: printMultipleFacts_def header_text)
qed


lemma missing_data_throws:
  assumes "k \<noteq> RandomFact" and "map_of kvs ''data'' = None"
  shows "callback_of k (JObj kvs) =
     ([ConsoleLog [JStr (header_of k)]],
      Inl (TypeError ''Cannot read properties of undefined (reading 'forEach')''))"
  using assms
  by (cases k)
    (simp_all add: printMultipleFacts_def printCatBreeds_def header_text throw_def)

subsection \<open>The callbacks only call console.log, and the header comes first\<close>

lemma bind_only_logs:
  "list_all is_log (fst m) \<Longrightarrow> (\<And>v. list_all is_log (fst (f v))) \<Longrightarrow>
   list_all is_log (fst (bind m f))"
  by (simp add: bind_events split: sum.splits)

lemma fact_line_only_logs: "list_all is_log (fst (printFactLine x n))"
  by (simp add: printFactLine_def bind_events bind_result console_log_def split: sum.splits)

lemma breed_line_only_logs: "list_all is_log (fst (printBreedLine x n))"
  by (simp add: printBreedLine_def bind_events bind_result console_log_def split: sum.splits)

lemma forEach_from_only_logs:
  "(\<And>x n. list_all is_log (fst (f x n))) \<Longrightarrow> list_all is_log (fst (forEach_from i xs f))"
  by (induction xs arbitrary: i) (simp_all add: return_value_def bind_only_logs)

lemma forEach_only_logs:
  "(\<And>x n. list_all is_log (fst (f x n))) \<Longrightarrow> list_all is_log (fst (forEach d f))"
  by (cases d) (simp_all add: throw_def forEach_from_only_logs)

lemma callback_only_logs: "list_all is_log (fst (callback_of k v))"
proof (cases k)
  case RandomFact
  then show ?thesis
    by (simp add: printRandomFact_def bind_events console_log_def split: sum.splits)
next
  case MultipleFacts
  have "list_all is_log (fst (bind (get_prop v Data) (\<lambda>d. forEach d printFactLine)))"
    by (rule bind_only_logs) (simp_all add: forEach_only_logs fact_line_only_logs)
  with MultipleFacts show ?thesis
    by (simp add: printMultipleFacts_def console_log_def bind_events)
next
  case CatBreeds
  have "list_all is_log (fst (bind (get_prop v Data) (\<lambda>d. forEach d printBreedLine)))"
    by (rule bind_only_logs) (simp_all add: forEach_only_logs breed_line_only_logs)
  with CatBreeds show ?thesis
    by (simp add: printCatBreeds_def console_log_def bind_events)
qed

lemma callback_prints_header:
  "\<exists>rest. fst (callback_of k v) = ConsoleLog [JStr (header_of k)] # rest"
  by (cases k)
    (simp_all add: printRandomFact_def printMultipleFacts_def printCatBreeds_def
      bind_events console_log_def header_text)

lemma only_logs_filter:
  "list_all is_log evs \<Longrightarrow> filter is_error evs = [] \<and> filter is_log evs = evs"
proof (induction evs)
  case Nil
  then show ?case by simp
next
  case (Cons ev evs)
  then show ?case by (cases ev) simp_all
qed


lemma logs_request_nothing: "list_all is_log evs \<Longrightarrow> concat (map request_of evs) = []"
proof (induction evs)
  case Nil
  then show ?case by simp
next
  case (Cons ev evs)
  then show ?case by (cases ev) simp_all
qed

lemma attempt_errors: "filter is_error (events (attempt k t)) = []"
  using only_logs_filter [OF callback_only_logs]
  by (simp add: attempt_cases events_def split: settled.splits sum.splits)

lemma requests_of_report: "requests (run_report k t) = [url_of k]"
proof -
  have "concat (map request_of (fst (callback_of k v))) = []" for v
    by (rule logs_request_nothing) (rule callback_only_logs)
  then show ?thesis
    by (simp add: requests_def events_def report_cases
        split: settled.splits sum.splits)
qed

subsection \<open>A loop over a non-empty array leaves a trace\<close>







subsection \<open>Deliveries\<close>

lemma steps_of_report: "fst (run_report k t) = [Fetch (url_of k)] # waiting t k"
  by (simp add: waiting_def report_cases split: settled.splits sum.splits)

lemma started_fetch: "started k t = [(Some k, Fetch (url_of k))]"
  by (simp add: started_def steps_of_report)




lemma deliver_project:
  "map snd (filter (\<lambda>x. fst x = Some k) (deliver s q)) = concat (take (count_list s k) (q k))"
proof (induction s arbitrary: q)
  case Nil
  then show ?case by simp
next
  case (Cons r rs)
  show ?case
  proof (cases "q r")
    case Nil
    then show ?thesis using Cons.IH [of q] by (cases "r = k") simp_all
  next
    case (Cons step rest)
    show ?thesis
    proof (cases "r = k")
      case True
      with Cons Cons.IH [of "q(k := rest)"] show ?thesis
        by (simp add: filter_map o_def fun_upd_def)
    next
      case False
      with Cons Cons.IH [of "q(r := rest)"] show ?thesis
        by (simp add: filter_map o_def fun_upd_def)
    qed
  qed
qed

lemma script_project:
  "map snd (filter (\<lambda>x. fst x = Some k) (script t s)) =
     Fetch (url_of k) # concat (take (count_list s k) (waiting t k))"
  by (cases k) (simp_all add: script_def started_fetch deliver_project)



section \<open>The claims\<close>

subsection \<open>C1: the status code\<close>

text \<open>
  Claim C1 says that a response with status code 400 or more makes the pipeline fail
  without reading the body. The script never looks at the status code. What holds
  instead: whenever \<^verbatim>\<open>fetch\<close> is fulfilled with a response, whatever its status, the
  body is read and the pipeline settles as the body read does; and replacing the status
  code of a response by any other changes nothing in what a report does.
\<close>

theorem status_is_not_inspected:
  assumes "t url = Fulfilled r"
  shows "promise_then (fetch t url) json =
           ([[Fetch url], [ReadBody]],
            case body_json r of Inl e \<Rightarrow> Rejected e | Inr v \<Rightarrow> Fulfilled v) \<and>
         run_report k (t(url_of k := Fulfilled (r\<lparr>status := code\<rparr>))) =
           run_report k (t(url_of k := Fulfilled r))"
  using assms by (simp add: pipeline_settles report_cases)

text \<open>
  The theorem at a response with status 404 and a JSON body: the body is read and the
  pipeline is fulfilled with the document, and the report is the same as for status 200.
\<close>

theorem status_is_not_inspected_witness:
  "promise_then
     (fetch (answering \<lparr>status = 404, body_json = Inr (JObj [(''fact'', JStr ''Cats purr.'')])\<rparr>)
        ''https://catfact.ninja/fact'')
     json =
     ([[Fetch ''https://catfact.ninja/fact''], [ReadBody]],
      Fulfilled (JObj [(''fact'', JStr ''Cats purr.'')])) \<and>
   run_report RandomFact
     ((answering \<lparr>status = 404, body_json = Inr (JObj [(''fact'', JStr ''Cats purr.'')])\<rparr>)
        (url_of RandomFact :=
           Fulfilled \<lparr>status = 200, body_json = Inr (JObj [(''fact'', JStr ''Cats purr.'')])\<rparr>)) =
   run_report RandomFact
     ((answering \<lparr>status = 404, body_json = Inr (JObj [(''fact'', JStr ''Cats purr.'')])\<rparr>)
        (url_of RandomFact :=
           Fulfilled \<lparr>status = 404, body_json = Inr (JObj [(''fact'', JStr ''Cats purr.'')])\<rparr>))"
  using status_is_not_inspected
    [of "answering \<lparr>status = 404, body_json = Inr (JObj [(''fact'', JStr ''Cats purr.'')])\<rparr>"
        "''https://catfact.ninja/fact''"
        "\<lparr>status = 404, body_json = Inr (JObj [(''fact'', JStr ''Cats purr.'')])\<rparr>"
        RandomFact 200]
  by (simp add: answering_def)

text \<open>
  Against C1 as stated: a response with status 500 whose body is a fact. The pipeline is
  fulfilled, the body has been read, and the report prints the fact and no error.
\<close>

theorem status_500_is_parsed_and_printed:
  "400 \<le> status \<lparr>status = 500, body_json = Inr (JObj [(''fact'', JStr ''Cats purr.''), (''length'', JNum ''10'')])\<rparr> \<and>
   promise_then
     (fetch (answering \<lparr>status = 500, body_json = Inr (JObj [(''fact'', JStr ''Cats purr.''), (''length'', JNum ''10'')])\<rparr>)
        ''https://catfact.ninja/fact'')
     json =
     ([[Fetch ''https://catfact.ninja/fact''], [ReadBody]],
      Fulfilled (JObj [(''fact'', JStr ''Cats purr.''), (''length'', JNum ''10'')])) \<and>
   getRandomFact (answering \<lparr>status = 500, body_json = Inr (JObj [(''fact'', JStr ''Cats purr.''), (''length'', JNum ''10'')])\<rparr>) =
     ([[Fetch ''https://catfact.ninja/fact''], [ReadBody],
       [ConsoleLog [JStr ''Random Cat Fact:''], ConsoleLog [JStr ''Cats purr.'']]],
      Fulfilled ())"
  by (simp add: getRandomFact_def pipeline_settles answering_def url_text random_fact_prints)

subsection \<open>C2: the output of the single-fact report\<close>

text \<open>
  Claim C2: when the response to the single-fact request has a JSON object body whose
  \<^verbatim>\<open>fact\<close> field is the string \<open>f\<close>, the report calls \<^verbatim>\<open>console.log\<close> twice and
  nothing else, and standard output receives exactly the line \<^verbatim>\<open>Random Cat Fact:\<close>
  and the line \<open>f\<close>. This holds for every status code, so for 200, and whatever other
  fields (such as \<^verbatim>\<open>length\<close>) the body has.
\<close>

theorem single_fact_output:
  assumes "t randomFactUrl = Fulfilled r"
    and "body_json r = Inr (JObj kvs)"
    and "map_of kvs ''fact'' = Some (JStr f)"
  shows "getRandomFact t =
           ([[Fetch randomFactUrl], [ReadBody],
             [ConsoleLog [JStr ''Random Cat Fact:''], ConsoleLog [JStr f]]], Fulfilled ()) \<and>
         stdout_text (events (getRandomFact t)) =
           Some (''Random Cat Fact:'' @ [newline] @ f @ [newline])"
  using assms
  by (simp add: getRandomFact_def pipeline_settles random_fact_prints events_def
      stdout_text_def)

text \<open>The theorem at the body \<^verbatim>\<open>{"fact": "Cats purr.", "length": 10}\<close> with status 200.\<close>

theorem single_fact_output_witness:
  "answering \<lparr>status = 200, body_json = Inr (JObj [(''fact'', JStr ''Cats purr.''), (''length'', JNum ''10'')])\<rparr>
     randomFactUrl =
     Fulfilled \<lparr>status = 200, body_json = Inr (JObj [(''fact'', JStr ''Cats purr.''), (''length'', JNum ''10'')])\<rparr> \<and>
   map_of [(''fact'', JStr ''Cats purr.''), (''length'', JNum ''10'')] ''fact'' = Some (JStr ''Cats purr.'') \<and>
   getRandomFact (answering \<lparr>status = 200, body_json = Inr (JObj [(''fact'', JStr ''Cats purr.''), (''length'', JNum ''10'')])\<rparr>) =
     ([[Fetch randomFactUrl], [ReadBody],
       [ConsoleLog [JStr ''Random Cat Fact:''], ConsoleLog [JStr ''Cats purr.'']]], Fulfilled ()) \<and>
   stdout_text (events (getRandomFact (answering \<lparr>status = 200, body_json = Inr (JObj [(''fact'', JStr ''Cats purr.''), (''length'', JNum ''10'')])\<rparr>))) =
     Some (''Random Cat Fact:'' @ [newline] @ ''Cats purr.'' @ [newline])"
proof -
  let ?r = "\<lparr>status = 200, body_json = Inr (JObj [(''fact'', JStr ''Cats purr.''), (''length'', JNum ''10'')])\<rparr>"
  have h1: "answering ?r randomFactUrl = Fulfilled ?r"
    by (simp add: answering_def)
  have h2: "body_json ?r = Inr (JObj [(''fact'', JStr ''Cats purr.''), (''length'', JNum ''10'')])"
    by simp
  have h3: "map_of [(''fact'', JStr ''Cats purr.''), (''length'', JNum ''10'')] ''fact'' = Some (JStr ''Cats purr.'')"
    by simp
  show ?thesis
    using h1 h3 single_fact_output [where t = "answering ?r", OF h1 h2 h3] by blast
qed

subsection \<open>C3: three facts, in the order received\<close>

text \<open>
  Claim C3: when the body of the multiple-facts response is an object whose \<^verbatim>\<open>data\<close>
  is an array of exactly three records with string \<^verbatim>\<open>fact\<close> fields, the report
  prints the header and then exactly three lines numbered 1., 2., 3., the \<open>i\<close>-th line
  carrying the fact of the \<open>i\<close>-th record: the order of the output is the order of the
  input, with nothing sorted and nothing dropped. The header text starts with a line
  feed, so an empty line precedes it on standard output.
\<close>

theorem three_facts_in_order:
  assumes "t multipleFactsUrl = Fulfilled r"
    and "body_json r = Inr (JObj kvs)"
    and "map_of kvs ''data'' = Some (JArr [JObj a, JObj b, JObj c])"
    and "map_of a ''fact'' = Some (JStr fa)"
    and "map_of b ''fact'' = Some (JStr fb)"
    and "map_of c ''fact'' = Some (JStr fc)"
  shows "getMultipleFacts t =
           ([[Fetch multipleFactsUrl], [ReadBody],
             [ConsoleLog [JStr (newline # ''3 Random Cat Facts:'')],
              ConsoleLog [JStr (''1. '' @ fa)],
              ConsoleLog [JStr (''2. '' @ fb)],
              ConsoleLog [JStr (''3. '' @ fc)]]], Fulfilled ()) \<and>
         stdout_text (events (getMultipleFacts t)) =
           Some (newline # ''3 Random Cat Facts:'' @ [newline] @
                 ''1. '' @ fa @ [newline] @ ''2. '' @ fb @ [newline] @ ''3. '' @ fc @ [newline])"
proof -
  have "printMultipleFacts (JObj kvs) =
      (ConsoleLog [JStr (header_of MultipleFacts)] #
       map (\<lambda>(n, x). numbered n (projr (ToString (prop_value x Fact))))
         (enumerate 0 [JObj a, JObj b, JObj c]),
       Inr ())"
    by (rule multiple_facts_prints [OF assms(3)]) (use assms(4-6) in auto)
  then have "callback_of MultipleFacts (JObj kvs) =
      ([ConsoleLog [JStr (newline # ''3 Random Cat Facts:'')],
        ConsoleLog [JStr (''1. '' @ fa)],
        ConsoleLog [JStr (''2. '' @ fb)],
        ConsoleLog [JStr (''3. '' @ fc)]], Inr ())"
    using assms(4-6) by (simp add: numbered_def show_nat_small)
  from collection_report [of t MultipleFacts, OF _ assms(2) this] assms(1)
  have run: "getMultipleFacts t =
           ([[Fetch multipleFactsUrl], [ReadBody],
             [ConsoleLog [JStr (newline # ''3 Random Cat Facts:'')],
              ConsoleLog [JStr (''1. '' @ fa)],
              ConsoleLog [JStr (''2. '' @ fb)],
              ConsoleLog [JStr (''3. '' @ fc)]]], Fulfilled ())"
    by simp
  show ?thesis
    unfolding run by (simp add: events_def stdout_text_def)
qed

text \<open>
  The theorem at the facts B, A, B: they are printed as 1. B, 2. A, 3. B, neither sorted
  nor deduplicated.
\<close>

theorem three_facts_in_order_witness:
  "map_of [(''data'', JArr [JObj [(''fact'', JStr ''B'')], JObj [(''fact'', JStr ''A'')],
                             JObj [(''fact'', JStr ''B'')]])] ''data'' =
     Some (JArr [JObj [(''fact'', JStr ''B'')], JObj [(''fact'', JStr ''A'')],
                 JObj [(''fact'', JStr ''B'')]]) \<and>
   getMultipleFacts
     (answering \<lparr>status = 200, body_json = Inr (JObj [(''data'',
        JArr [JObj [(''fact'', JStr ''B'')], JObj [(''fact'', JStr ''A'')],
              JObj [(''fact'', JStr ''B'')]])])\<rparr>) =
     ([[Fetch multipleFactsUrl], [ReadBody],
       [ConsoleLog [JStr (newline # ''3 Random Cat Facts:'')],
        ConsoleLog [JStr (''1. '' @ ''B'')],
        ConsoleLog [JStr (''2. '' @ ''A'')],
        ConsoleLog [JStr (''3. '' @ ''B'')]]], Fulfilled ())"
proof -
  let ?data = "JArr [JObj [(''fact'', JStr ''B'')], JObj [(''fact'', JStr ''A'')],
                     JObj [(''fact'', JStr ''B'')]]"
  let ?r = "\<lparr>status = 200, body_json = Inr (JObj [(''data'', ?data)])\<rparr>"
  have h1: "answering ?r multipleFactsUrl = Fulfilled ?r"
    by (simp add: answering_def)
  have h2: "body_json ?r = Inr (JObj [(''data'', ?data)])"
    by simp
  have h3: "map_of [(''data'', ?data)] ''data'' = Some ?data"
    by simp
  have h4: "map_of [(''fact'', JStr ''B'')] ''fact'' = Some (JStr ''B'')"
    by simp
  have h5: "map_of [(''fact'', JStr ''A'')] ''fact'' = Some (JStr ''A'')"
    by simp
  show ?thesis
    using h3 three_facts_in_order [where t = "answering ?r", OF h1 h2 h3 h4 h5 h4] by blast
qed

subsection \<open>C4: the request URLs\<close>

text \<open>
  Claim C4: each report sends exactly one request, and its URL is the base URL and the
  path joined by one slash, with \<^verbatim>\<open>?limit=3\<close> appended for the multiple-facts report.
  This holds whatever the transport answers.
\<close>

theorem request_urls:
  "requests (getRandomFact t) = [''https://catfact.ninja/fact''] \<and>
   requests (getMultipleFacts t) = [''https://catfact.ninja/facts?limit=3''] \<and>
   requests (getCatBreeds t) = [''https://catfact.ninja/breeds'']"
  using requests_of_report [of RandomFact t] requests_of_report [of MultipleFacts t]
    requests_of_report [of CatBreeds t]
  by (simp add: url_text)

subsection \<open>C5: a body that is not JSON\<close>

text \<open>
  Claim C5: when the body read of a response is rejected with an error \<open>e\<close> (for a body
  that is not JSON, the SyntaxError of the parser; this is the decode error of the
  specification), the pipeline is rejected with \<open>e\<close>, and whatever callback \<open>f\<close> is
  chained after it does not run: the chain has the two steps of the request and the body
  read and no third. The report then logs \<open>e\<close> under its label and prints nothing on
  standard output.
\<close>

theorem unparsable_body_is_reported:
  assumes "t (url_of k) = Fulfilled r"
    and "body_json r = Inl e"
  shows "promise_then (promise_then (fetch t (url_of k)) json) f =
           ([[Fetch (url_of k)], [ReadBody]], Rejected e) \<and>
         run_report k t =
           ([[Fetch (url_of k)], [ReadBody], [ConsoleError (label_of k) e]], Fulfilled ())"
  using assms by (simp add: pipeline_settles report_cases)

text \<open>The theorem at the breeds report, for a body that starts with a tag.\<close>

theorem unparsable_body_is_reported_witness:
  "promise_then
     (promise_then
        (fetch (answering \<lparr>status = 200, body_json = Inl (JsError ''SyntaxError'' ''Unexpected token < in JSON at position 0'')\<rparr>)
           (url_of CatBreeds))
        json)
     printCatBreeds =
     ([[Fetch (url_of CatBreeds)], [ReadBody]],
      Rejected (JsError ''SyntaxError'' ''Unexpected token < in JSON at position 0'')) \<and>
   run_report CatBreeds (answering \<lparr>status = 200, body_json = Inl (JsError ''SyntaxError'' ''Unexpected token < in JSON at position 0'')\<rparr>) =
     ([[Fetch (url_of CatBreeds)], [ReadBody],
       [ConsoleError (label_of CatBreeds) (JsError ''SyntaxError'' ''Unexpected token < in JSON at position 0'')]],
      Fulfilled ())"
  using unparsable_body_is_reported
    [of "answering \<lparr>status = 200, body_json = Inl (JsError ''SyntaxError'' ''Unexpected token < in JSON at position 0'')\<rparr>"
        CatBreeds
        "\<lparr>status = 200, body_json = Inl (JsError ''SyntaxError'' ''Unexpected token < in JSON at position 0'')\<rparr>"
        "JsError ''SyntaxError'' ''Unexpected token < in JSON at position 0''" printCatBreeds]
  by (simp add: answering_def)

subsection \<open>C6: what counts as a failure, and failures stay inside their report\<close>

text \<open>
  Claim C6 counts a bad status among the failures that are caught and logged. For the
  script a report fails only when the chain before \<^verbatim>\<open>.catch\<close> is rejected, and that
  happens in three ways: the request is rejected, the body read is rejected, or the
  printing callback throws. The status code plays no part, and the single-fact callback
  does not throw on any object, with or without a \<^verbatim>\<open>fact\<close> field. What holds:
  the chain of each report ends fulfilled, so no rejection is left unhandled to end the
  process; the report calls \<^verbatim>\<open>console.error\<close> once, with its label and the error,
  when the chain before \<^verbatim>\<open>.catch\<close> is rejected, and not at all otherwise; and whatever
  happens to the request of report \<open>k\<close>, every other report \<open>k'\<close> does and prints
  exactly what it would otherwise, as a chain on its own and inside the trace of the
  whole script under every schedule.
\<close>

theorem report_failures_are_isolated:
  assumes "k' \<noteq> k"
  shows "snd (run_report k t) = Fulfilled () \<and>
         snd (attempt k t) =
           (case t (url_of k) of
              Rejected e \<Rightarrow> Rejected e
            | Fulfilled r \<Rightarrow>
                (case body_json r of
                   Inl e \<Rightarrow> Rejected e
                 | Inr v \<Rightarrow>
                     (case snd (callback_of k v) of
                        Inl e \<Rightarrow> Rejected e
                      | Inr u \<Rightarrow> Fulfilled ()))) \<and>
         snd (callback_of RandomFact (JObj kvs)) = Inr () \<and>
         filter is_error (events (run_report k t)) =
           (case snd (attempt k t) of
              Rejected e \<Rightarrow> [ConsoleError (label_of k) e]
            | Fulfilled u \<Rightarrow> []) \<and>
         (\<forall>e. snd (attempt k t) = Rejected e \<longrightarrow>
            run_report k t = (fst (attempt k t) @ [[ConsoleError (label_of k) e]], Fulfilled ())) \<and>
         run_report k' (t(url_of k := outcome)) = run_report k' t \<and>
         map snd (filter (\<lambda>x. fst x = Some k') (script (t(url_of k := outcome)) s)) =
           map snd (filter (\<lambda>x. fst x = Some k') (script t s))"
proof -
  have kinds: "snd (attempt k t) =
           (case t (url_of k) of
              Rejected e \<Rightarrow> Rejected e
            | Fulfilled r \<Rightarrow>
                (case body_json r of
                   Inl e \<Rightarrow> Rejected e
                 | Inr v \<Rightarrow>
                     (case snd (callback_of k v) of
                        Inl e \<Rightarrow> Rejected e
                      | Inr u \<Rightarrow> Fulfilled ())))"
    by (simp add: attempt_cases split: settled.splits sum.splits)
  have single: "snd (callback_of RandomFact (JObj kvs)) = Inr ()"
    by (simp add: random_fact_prints)
  have errors: "filter is_error (events (run_report k t)) =
           (case snd (attempt k t) of
              Rejected e \<Rightarrow> [ConsoleError (label_of k) e]
            | Fulfilled u \<Rightarrow> [])"
  proof (cases "snd (attempt k t)")
    case (Fulfilled u)
    then have "run_report k t = attempt k t"
      by (cases "attempt k t") (simp add: run_report_attempt)
    with Fulfilled show ?thesis
      by (simp add: attempt_errors)
  next
    case (Rejected e)
    then have "events (run_report k t) = events (attempt k t) @ [ConsoleError (label_of k) e]"
      by (simp add: caught events_def)
    with Rejected show ?thesis
      by (simp add: attempt_errors)
  qed
  have "url_of k' \<noteq> url_of k"
    using assms by (simp add: url_of_inject)
  then have same: "run_report k' (t(url_of k := outcome)) = run_report k' t"
    by (simp add: report_cases)
  then have "waiting (t(url_of k := outcome)) k' = waiting t k'"
    by (simp add: waiting_def)
  then have traces:
    "map snd (filter (\<lambda>x. fst x = Some k') (script (t(url_of k := outcome)) s)) =
      map snd (filter (\<lambda>x. fst x = Some k') (script t s))"
    by (simp add: script_project)
  from kinds single errors same traces show ?thesis
    by (simp add: always_fulfilled caught)
qed

text \<open>
  The theorem where the breeds request fails on the network: the failure is logged once,
  and the multiple-facts report is what it is without that failure.
\<close>

theorem report_failures_are_isolated_witness:
  "MultipleFacts \<noteq> CatBreeds \<and>
   snd (attempt CatBreeds (refusing (JsError ''TypeError'' ''fetch failed''))) =
     Rejected (JsError ''TypeError'' ''fetch failed'') \<and>
   filter is_error
     (events (run_report CatBreeds (refusing (JsError ''TypeError'' ''fetch failed'')))) =
     [ConsoleError (label_of CatBreeds) (JsError ''TypeError'' ''fetch failed'')] \<and>
   run_report CatBreeds (refusing (JsError ''TypeError'' ''fetch failed'')) =
     (fst (attempt CatBreeds (refusing (JsError ''TypeError'' ''fetch failed''))) @
        [[ConsoleError (label_of CatBreeds) (JsError ''TypeError'' ''fetch failed'')]],
      Fulfilled ()) \<and>
   run_report MultipleFacts
     ((answering \<lparr>status = 200, body_json = Inr (JObj [(''data'', JArr [])])\<rparr>)
        (url_of CatBreeds := Rejected (JsError ''TypeError'' ''fetch failed''))) =
   run_report MultipleFacts
     (answering \<lparr>status = 200, body_json = Inr (JObj [(''data'', JArr [])])\<rparr>)"
proof -
  let ?e = "JsError ''TypeError'' ''fetch failed''"
  let ?t = "answering \<lparr>status = 200, body_json = Inr (JObj [(''data'', JArr [])])\<rparr>"
  have h: "MultipleFacts \<noteq> CatBreeds"
    by simp
  have r: "snd (attempt CatBreeds (refusing ?e)) = Rejected ?e"
    by (simp add: attempt_cases refusing_def)
  have "filter is_error (events (run_report CatBreeds (refusing ?e))) =
      (case snd (attempt CatBreeds (refusing ?e)) of
         Rejected e \<Rightarrow> [ConsoleError (label_of CatBreeds) e]
       | Fulfilled u \<Rightarrow> [])"
    using report_failures_are_isolated [OF h, where t = "refusing ?e"] by blast
  then have logged: "filter is_error (events (run_report CatBreeds (refusing ?e))) =
      [ConsoleError (label_of CatBreeds) ?e]"
    unfolding r by simp
  show ?thesis
    using h r logged
      report_failures_are_isolated [OF h, where t = "refusing ?e" and outcome = "Rejected ?e"]
      report_failures_are_isolated [OF h, where t = ?t and outcome = "Rejected ?e"]
    by blast
qed

text \<open>
  Against C6 as stated: a response with the bad status 503 and a collection of one fact.
  The chain before \<^verbatim>\<open>.catch\<close> is fulfilled, the fact is printed, and nothing is caught
  or logged as an error.
\<close>

theorem bad_status_is_not_a_failure:
  "400 \<le> status \<lparr>status = 503, body_json = Inr (JObj [(''data'', JArr [JObj [(''fact'', JStr ''Cats purr.'')]])])\<rparr> \<and>
   snd (attempt MultipleFacts
     (answering \<lparr>status = 503, body_json = Inr (JObj [(''data'', JArr [JObj [(''fact'', JStr ''Cats purr.'')]])])\<rparr>)) =
     Fulfilled () \<and>
   getMultipleFacts
     (answering \<lparr>status = 503, body_json = Inr (JObj [(''data'', JArr [JObj [(''fact'', JStr ''Cats purr.'')]])])\<rparr>) =
     ([[Fetch ''https://catfact.ninja/facts?limit=3''], [ReadBody],
       [ConsoleLog [JStr (newline # ''3 Random Cat Facts:'')],
        ConsoleLog [JStr ''1. Cats purr.'']]],
      Fulfilled ()) \<and>
   filter is_error (events (getMultipleFacts
     (answering \<lparr>status = 503, body_json = Inr (JObj [(''data'', JArr [JObj [(''fact'', JStr ''Cats purr.'')]])])\<rparr>))) =
     []"
  by code_simp

subsection \<open>C7: what a failing report prints\<close>

text \<open>
  Claim C7 says a failing report prints one error message and nothing else. The error
  message is as claimed, but the callbacks print their header before they read the
  document, so a failure inside the callback comes after output. What holds: when the
  chain before \<^verbatim>\<open>.catch\<close> is rejected with \<open>e\<close>, the report does what that chain did
  and then one \<^verbatim>\<open>console.error\<close> with its label and \<open>e\<close>, the only one; when it is the
  pipeline (request or body read) that was rejected, nothing is printed on standard
  output; when the pipeline was fulfilled and the callback failed, the header line has
  been printed before the error.
\<close>

theorem failing_report_output:
  assumes "snd (attempt k t) = Rejected e"
  shows "events (run_report k t) = events (attempt k t) @ [ConsoleError (label_of k) e] \<and>
         filter is_error (events (run_report k t)) = [ConsoleError (label_of k) e] \<and>
         (snd (promise_then (fetch t (url_of k)) json) = Rejected e \<longrightarrow>
            filter is_log (events (run_report k t)) = []) \<and>
         (\<forall>v. snd (promise_then (fetch t (url_of k)) json) = Fulfilled v \<longrightarrow>
            (\<exists>rest. filter is_log (events (run_report k t)) =
               ConsoleLog [JStr (header_of k)] # rest))"
proof -
  have ev: "events (run_report k t) = events (attempt k t) @ [ConsoleError (label_of k) e]"
    by (simp add: caught [OF assms] events_def)
  have err: "filter is_error (events (run_report k t)) = [ConsoleError (label_of k) e]"
    by (simp add: ev attempt_errors)
  have early: "filter is_log (events (run_report k t)) = []"
    if "snd (promise_then (fetch t (url_of k)) json) = Rejected e"
    using that unfolding ev
    by (simp add: attempt_cases pipeline_settles events_def split: settled.splits sum.splits)
  have late: "\<exists>rest. filter is_log (events (run_report k t)) =
               ConsoleLog [JStr (header_of k)] # rest"
    if "snd (promise_then (fetch t (url_of k)) json) = Fulfilled v" for v
  proof -
    obtain rest where "fst (callback_of k v) = ConsoleLog [JStr (header_of k)] # rest"
      using callback_prints_header by blast
    with that show ?thesis
      unfolding ev
      by (simp add: attempt_cases pipeline_settles events_def
          split: settled.splits sum.splits)
  qed
  from ev err early late show ?thesis by blast
qed

text \<open>
  The theorem at a breeds response whose second record is \<^verbatim>\<open>null\<close>: one error
  message, after the header (and the first numbered line); and at a single-fact request
  that fails on the network: nothing on standard output.
\<close>

theorem failing_report_output_witness:
  "snd (attempt CatBreeds
     (answering \<lparr>status = 200, body_json = Inr (JObj [(''data'',
        JArr [JObj [(''breed'', JStr ''Abyssinian'')], JNull])])\<rparr>)) =
     Rejected (JsError ''TypeError'' ''Cannot read properties of null (reading 'breed')'') \<and>
   filter is_error (events (run_report CatBreeds
     (answering \<lparr>status = 200, body_json = Inr (JObj [(''data'',
        JArr [JObj [(''breed'', JStr ''Abyssinian'')], JNull])])\<rparr>))) =
     [ConsoleError (label_of CatBreeds)
        (JsError ''TypeError'' ''Cannot read properties of null (reading 'breed')'')] \<and>
   (\<exists>rest. filter is_log (events (run_report CatBreeds
     (answering \<lparr>status = 200, body_json = Inr (JObj [(''data'',
        JArr [JObj [(''breed'', JStr ''Abyssinian'')], JNull])])\<rparr>))) =
     ConsoleLog [JStr (header_of CatBreeds)] # rest) \<and>
   snd (attempt RandomFact (refusing (JsError ''TypeError'' ''fetch failed''))) =
     Rejected (JsError ''TypeError'' ''fetch failed'') \<and>
   filter is_log (events (run_report RandomFact
     (refusing (JsError ''TypeError'' ''fetch failed'')))) = []"
proof -
  let ?v = "JObj [(''data'', JArr [JObj [(''breed'', JStr ''Abyssinian'')], JNull])]"
  let ?t = "answering \<lparr>status = 200, body_json = Inr ?v\<rparr>"
  let ?e = "JsError ''TypeError'' ''Cannot read properties of null (reading 'breed')''"
  have h: "snd (attempt CatBreeds ?t) = Rejected ?e"
    by code_simp
  have p: "snd (promise_then (fetch ?t (url_of CatBreeds)) json) = Fulfilled ?v"
    by (simp add: pipeline_settles answering_def)
  let ?n = "JsError ''TypeError'' ''fetch failed''"
  have h': "snd (attempt RandomFact (refusing ?n)) = Rejected ?n"
    by (simp add: attempt_cases refusing_def)
  have p': "snd (promise_then (fetch (refusing ?n) (url_of RandomFact)) json) = Rejected ?n"
    by (simp add: pipeline_settles refusing_def)
  show ?thesis
    using h p h' p' failing_report_output [OF h] failing_report_output [OF h'] by blast
qed

text \<open>
  Against C7 as stated: the multiple-facts report on the body \<^verbatim>\<open>{}\<close> fails, and its
  header line is printed before the error message.
\<close>

theorem header_printed_before_failure:
  "getMultipleFacts (answering \<lparr>status = 200, body_json = Inr (JObj [])\<rparr>) =
     ([[Fetch ''https://catfact.ninja/facts?limit=3''], [ReadBody],
       [ConsoleLog [JStr (newline # ''3 Random Cat Facts:'')]],
       [ConsoleError ''Error fetching multiple cat facts:''
          (JsError ''TypeError'' ''Cannot read properties of undefined (reading 'forEach')'')]],
      Fulfilled ())"
  using report_cases [of MultipleFacts "answering \<lparr>status = 200, body_json = Inr (JObj [])\<rparr>"]
  by (simp add: answering_def url_text printMultipleFacts_def header_text throw_def
      TypeError_def)

subsection \<open>C8: a document without the expected field\<close>

text \<open>
  Claim C8 says a parsed document that lacks an expected field makes the report fail with
  a decode error. The script does not check the shape of the document. What holds for an
  object body: without a \<^verbatim>\<open>fact\<close> field, the single-fact report prints its header and
  the value \<^verbatim>\<open>undefined\<close> and does not fail; without a \<^verbatim>\<open>data\<close> field, a collection
  report prints its header and then fails with the TypeError of calling \<^verbatim>\<open>forEach\<close>
  on \<^verbatim>\<open>undefined\<close>, which is logged under the report's label.
\<close>

theorem missing_field_is_not_validated:
  assumes "t (url_of k) = Fulfilled r"
    and "body_json r = Inr (JObj kvs)"
  shows "(k = RandomFact \<and> map_of kvs ''fact'' = None \<longrightarrow>
            run_report k t =
              ([[Fetch (url_of k)], [ReadBody],
                [ConsoleLog [JStr (header_of k)], ConsoleLog [Undefined]]], Fulfilled ())) \<and>
         (k \<noteq> RandomFact \<and> map_of kvs ''data'' = None \<longrightarrow>
            (\<exists>msg. run_report k t =
              ([[Fetch (url_of k)], [ReadBody], [ConsoleLog [JStr (header_of k)]],
                [ConsoleError (label_of k) (JsError ''TypeError'' msg)]],
               Fulfilled ())))"
proof (intro conjI impI)
  assume "k = RandomFact \<and> map_of kvs ''fact'' = None"
  with assms report_cases [of k t] show "run_report k t =
      ([[Fetch (url_of k)], [ReadBody],
        [ConsoleLog [JStr (header_of k)], ConsoleLog [Undefined]]], Fulfilled ())"
    by (simp add: random_fact_prints)
next
  assume "k \<noteq> RandomFact \<and> map_of kvs ''data'' = None"
  then have "callback_of k (JObj kvs) =
     ([ConsoleLog [JStr (header_of k)]],
      Inl (TypeError ''Cannot read properties of undefined (reading 'forEach')''))"
    by (simp add: missing_data_throws)
  with assms show "\<exists>msg. run_report k t =
      ([[Fetch (url_of k)], [ReadBody], [ConsoleLog [JStr (header_of k)]],
        [ConsoleError (label_of k) (JsError ''TypeError'' msg)]],
       Fulfilled ())"
    by (simp add: report_cases TypeError_def)
qed

text \<open>
  The theorem at a single-fact response that carries an error message instead of a fact,
  and at a breeds response that has only pagination data.
\<close>

theorem missing_field_is_not_validated_witness:
  "map_of [(''message'', JStr ''Not Found'')] ''fact'' = None \<and>
   run_report RandomFact
     (answering \<lparr>status = 404, body_json = Inr (JObj [(''message'', JStr ''Not Found'')])\<rparr>) =
     ([[Fetch (url_of RandomFact)], [ReadBody],
       [ConsoleLog [JStr (header_of RandomFact)], ConsoleLog [Undefined]]], Fulfilled ()) \<and>
   CatBreeds \<noteq> RandomFact \<and> map_of [(''current_page'', JNum ''1'')] ''data'' = None \<and>
   (\<exists>msg. run_report CatBreeds
     (answering \<lparr>status = 200, body_json = Inr (JObj [(''current_page'', JNum ''1'')])\<rparr>) =
     ([[Fetch (url_of CatBreeds)], [ReadBody], [ConsoleLog [JStr (header_of CatBreeds)]],
       [ConsoleError (label_of CatBreeds) (JsError ''TypeError'' msg)]],
      Fulfilled ()))"
proof -
  let ?r = "\<lparr>status = 200, body_json = Inr (JObj [(''current_page'', JNum ''1'')])\<rparr>"
  have h1: "answering ?r (url_of CatBreeds) = Fulfilled ?r"
    by (simp add: answering_def)
  have h2: "body_json ?r = Inr (JObj [(''current_page'', JNum ''1'')])"
    by simp
  have h3: "CatBreeds \<noteq> RandomFact \<and> map_of [(''current_page'', JNum ''1'')] ''data'' = None"
    by simp
  let ?r' = "\<lparr>status = 404, body_json = Inr (JObj [(''message'', JStr ''Not Found'')])\<rparr>"
  have g1: "answering ?r' (url_of RandomFact) = Fulfilled ?r'"
    by (simp add: answering_def)
  have g2: "body_json ?r' = Inr (JObj [(''message'', JStr ''Not Found'')])"
    by simp
  have g3: "map_of [(''message'', JStr ''Not Found'')] ''fact'' = None"
    by simp
  show ?thesis
    using h3 g3 missing_field_is_not_validated [where t = "answering ?r", OF h1 h2]
      missing_field_is_not_validated [where t = "answering ?r'", OF g1 g2]
    by blast
qed

text \<open>
  Against C8 as stated: the single-fact report on the body \<^verbatim>\<open>{"length": 10}\<close> prints
  \<^verbatim>\<open>undefined\<close> and does not fail.
\<close>

theorem missing_fact_prints_undefined:
  "getRandomFact (answering \<lparr>status = 200, body_json = Inr (JObj [(''length'', JNum ''10'')])\<rparr>) =
     ([[Fetch ''https://catfact.ninja/fact''], [ReadBody],
       [ConsoleLog [JStr ''Random Cat Fact:''], ConsoleLog [Undefined]]],
      Fulfilled ())"
  by code_simp

subsection \<open>C9: requests in source order, completions in the order of arrival\<close>



subsection \<open>C10: an empty collection\<close>



end
